theory Spec2Isabelle
  imports Complex_Main
begin

section \<open>NDC normalisation (\<open>normalizeNDC\<close> of the server module)\<close>

text \<open>
  Strings are lists of characters. The embedding covers ASCII input: on the code units
  below 128, \<open>trim\<close> strips exactly tab, line feed, vertical tab, form feed, carriage
  return and space, and \<open>toUpperCase\<close> maps \<open>a..z\<close> to \<open>A..Z\<close>. Other characters
  are left alone by both functions here.
\<close>

definition isWhiteSpace :: "char \<Rightarrow> bool" where
  "isWhiteSpace c = (let n = (of_char c :: nat) in (9 \<le> n \<and> n \<le> 13) \<or> n = 32)"

definition trim :: "string \<Rightarrow> string" where
  "trim s = rev (dropWhile isWhiteSpace (rev (dropWhile isWhiteSpace s)))"

definition toUpperChar :: "char \<Rightarrow> char" where
  "toUpperChar c =
     (let n = (of_char c :: nat) in if 97 \<le> n \<and> n \<le> 122 then char_of (n - 32) else c)"

definition toUpperCase :: "string \<Rightarrow> string" where
  "toUpperCase s = map toUpperChar s"

text \<open>\<open>s.split(sep)\<close> for a one-character separator: \<open>n\<close> separators give \<open>n + 1\<close> parts.\<close>

fun split_str :: "char \<Rightarrow> string \<Rightarrow> string list" where
  "split_str sep [] = ['''']"
| "split_str sep (c # cs) =
     (if c = sep then [] # split_str sep cs
      else (case split_str sep cs of
              [] \<Rightarrow> [c # []]
            | p # ps \<Rightarrow> (c # p) # ps))"

text \<open>\<open>s.substring(a, b)\<close> for \<open>a \<le> b\<close>, the only way the source calls it.\<close>

definition substring :: "string \<Rightarrow> nat \<Rightarrow> nat \<Rightarrow> string" where
  "substring s a b = take (b - a) (drop a s)"

definition isDigit :: "char \<Rightarrow> bool" where
  "isDigit c = (let n = (of_char c :: nat) in 48 \<le> n \<and> n \<le> 57)"

text \<open>The regular expression \<open>/^\<backslash>d{5}-\<backslash>d{4}$/\<close>, tested on the product code.\<close>

definition test_product :: "string \<Rightarrow> bool" where
  "test_product p =
     (length p = 10 \<and> list_all isDigit (take 5 p) \<and> take 1 (drop 5 p) = ''-''
      \<and> list_all isDigit (drop 6 p))"

record ndc_result =
  productNDC :: string
  packageNDC :: "string option"
  isValid :: bool

definition normalizeNDC :: "string \<Rightarrow> ndc_result" where
  "normalizeNDC ndc =
     (let cleanNDC = toUpperCase (trim ndc) in
      if CHR ''-'' \<in> set cleanNDC then
        (let parts = split_str CHR ''-'' cleanNDC in
         if length parts = 2 then
           \<lparr>productNDC = cleanNDC, packageNDC = None, isValid = test_product cleanNDC\<rparr>
         else if length parts = 3 then
           (let p = parts ! 0 @ ''-'' @ parts ! 1 in
            \<lparr>productNDC = p, packageNDC = Some cleanNDC, isValid = test_product p\<rparr>)
         else \<lparr>productNDC = cleanNDC, packageNDC = None, isValid = False\<rparr>)
      else if length cleanNDC = 11 then
        (let p = substring cleanNDC 0 5 @ ''-'' @ substring cleanNDC 5 9 in
         \<lparr>productNDC = p,
          packageNDC = Some (substring cleanNDC 0 5 @ ''-'' @ substring cleanNDC 5 9
                             @ ''-'' @ substring cleanNDC 9 11),
          isValid = test_product p\<rparr>)
      else if length cleanNDC = 9 then
        (let p = substring cleanNDC 0 5 @ ''-'' @ substring cleanNDC 5 9 in
         \<lparr>productNDC = p, packageNDC = None, isValid = test_product p\<rparr>)
      else \<lparr>productNDC = cleanNDC, packageNDC = None, isValid = False\<rparr>)"


text \<open>
  The four layouts as the specification words them, for comparison with the code:
  two or three dash-separated segments, or eleven or nine contiguous digits.
\<close>

definition spec_recognized_layout :: "string \<Rightarrow> bool" where
  "spec_recognized_layout ndc =
     (let c = toUpperCase (trim ndc) in
      (CHR ''-'' \<in> set c
         \<and> (length (split_str CHR ''-'' c) = 2 \<or> length (split_str CHR ''-'' c) = 3))
      \<or> (list_all isDigit c \<and> (length c = 11 \<or> length c = 9)))"

section \<open>The URL builder (\<open>OpenFDABuilder\<close>)\<close>

text \<open>
  Numbers that reach a template literal are integers here; \<open>string_of_int\<close> is their
  decimal rendering, as \<open>`${n}`\<close> gives it for the integers the builder and the client
  see (result limits, HTTP statuses, milliseconds).
\<close>

definition digit_char :: "nat \<Rightarrow> char" where
  "digit_char d = ''0123456789'' ! d"

fun string_of_nat :: "nat \<Rightarrow> string" where
  "string_of_nat n =
     (if n < 10 then [digit_char n]
      else string_of_nat (n div 10) @ [digit_char (n mod 10)])"

definition string_of_int :: "int \<Rightarrow> string" where
  "string_of_int i =
     (if i < 0 then CHR ''-'' # string_of_nat (nat (- i)) else string_of_nat (nat i))"

datatype ContextType = Ndc | Label | Event

fun ContextType_str :: "ContextType \<Rightarrow> string" where
  "ContextType_str Ndc = ''ndc''"
| "ContextType_str Label = ''label''"
| "ContextType_str Event = ''event''"

text \<open>The values of \<open>Map<string, string | number>\<close>.\<close>

datatype param_value = PStr string | PNum int

record OpenFDABuilder =
  params :: "string \<rightharpoonup> param_value"

text \<open>The field \<open>url\<close> is initialised once and never assigned again.\<close>

definition url :: string where
  "url = ''https://api.fda.gov/drug/''"

definition new_OpenFDABuilder :: OpenFDABuilder where
  "new_OpenFDABuilder = \<lparr>params = Map.empty\<rparr>"

text \<open>The setter \<open>context\<close> (a reserved word here, hence the longer name).\<close>

definition set_context :: "ContextType \<Rightarrow> OpenFDABuilder \<Rightarrow> OpenFDABuilder" where
  "set_context c b = b\<lparr>params := (params b)(''context'' \<mapsto> PStr (ContextType_str c))\<rparr>"

definition search :: "string \<Rightarrow> OpenFDABuilder \<Rightarrow> OpenFDABuilder" where
  "search query b = b\<lparr>params := (params b)(''search'' \<mapsto> PStr query)\<rparr>"

text \<open>\<open>limit(max = 1)\<close>: an omitted argument is \<open>None\<close> and takes the default.\<close>

definition limit :: "int option \<Rightarrow> OpenFDABuilder \<Rightarrow> OpenFDABuilder" where
  "limit max_arg b =
     (let mx = (case max_arg of None \<Rightarrow> 1 | Some m \<Rightarrow> m)
      in b\<lparr>params := (params b)(''limit'' \<mapsto> PNum mx)\<rparr>)"

text \<open>JavaScript truthiness of what \<open>params.get\<close> returns (\<open>None\<close> is \<open>undefined\<close>).\<close>

fun truthy_param :: "param_value option \<Rightarrow> bool" where
  "truthy_param None = False"
| "truthy_param (Some (PStr s)) = (s \<noteq> [])"
| "truthy_param (Some (PNum n)) = (n \<noteq> 0)"

fun template_param :: "param_value option \<Rightarrow> string" where
  "template_param None = ''undefined''"
| "template_param (Some (PStr s)) = s"
| "template_param (Some (PNum n)) = string_of_int n"

datatype build_error = Error string

text \<open>
  \<open>build\<close> reads \<open>process.env.OPENFDA_API_KEY\<close> when it is called; the environment
  variable is the first argument, \<open>None\<close> when it is not set.
\<close>

definition build :: "string option \<Rightarrow> OpenFDABuilder \<Rightarrow> build_error + string" where
  "build apiKey b =
     (let context_v = params b ''context'';
          search_v = params b ''search'';
          limit_v = params b ''limit''
      in if \<not> truthy_param context_v \<or> \<not> truthy_param search_v \<or> \<not> truthy_param limit_v
         then Inl (Error ''Missing required parameters: context, search, or limit'')
         else Inr (url @ template_param context_v @ ''.json?api_key=''
                   @ (case apiKey of None \<Rightarrow> ''undefined'' | Some k \<Rightarrow> k)
                   @ ''&search='' @ template_param search_v
                   @ ''&limit='' @ template_param limit_v))"

section \<open>The request client (\<open>makeOpenFDARequest\<close> of \<open>OpenFDAClient.js\<close>)\<close>

subsection \<open>Values\<close>

text \<open>
  A parsed JSON value; the client looks only at its truthiness. A number is the value the
  parser produced.
\<close>

datatype json =
    JNull
  | JBool bool
  | JNumber rat
  | JString string
  | JArray "json list"
  | JObject "(string \<times> json) list"

fun truthy :: "json \<Rightarrow> bool" where
  "truthy JNull = False"
| "truthy (JBool b) = b"
| "truthy (JNumber n) = (n \<noteq> 0)"
| "truthy (JString s) = (s \<noteq> [])"
| "truthy (JArray xs) = True"
| "truthy (JObject kvs) = True"

text \<open>
  What a \<open>catch\<close> clause receives, and the object literal \<open>{ status: ... }\<close> that the
  HTTP branch passes to \<open>isRetryableError\<close>. A thrown value is an \<open>Error\<close> object: it
  has a name and a message string, and it may carry a numeric \<open>status\<close> property. The
  object literal has no name (\<open>None\<close>), and its message is never read.
\<close>

record js_error =
  exn_name :: "string option"
  exn_message :: string
  exn_status :: "int option"
  exn_is_TypeError :: bool

datatype json_outcome = ParseFailure js_error | Parsed json

text \<open>
  A response: \<open>resp_text\<close> is what \<open>response.text()\<close> resolves to (\<open>None\<close> when it
  rejects), \<open>resp_json\<close> what \<open>response.json()\<close> does. \<open>response.ok\<close> is, by the Fetch
  standard, the status lying in 200..299.
\<close>

record response =
  resp_status :: int
  resp_statusText :: string
  resp_text :: "string option"
  resp_json :: json_outcome

definition ok :: "response \<Rightarrow> bool" where
  "ok r = (200 \<le> resp_status r \<and> resp_status r \<le> 299)"

datatype fetch_outcome = Rejected js_error | Resolved response

datatype error_type = Http | Network | Timeout | Parsing | Empty_response | Unknown

datatype details = Text string | Exn js_error

record error_record =
  err_type :: error_type
  err_message :: string
  err_status :: "int option"
  err_details :: "details option"

record request_result =
  data :: "json option"
  error :: "error_record option"

record request_config =
  maxRetries :: int
  retryDelay :: int
  timeout :: int

text \<open>What the call did besides returning: the fetches issued and the delays slept.\<close>

record trace =
  attempts :: nat
  sleeps :: "int list"

subsection \<open>Configuration\<close>

text \<open>
  A configuration object maps field names to numbers.
  \<open>{ ...DEFAULT_CONFIG, ...config }\<close> is map override, and the destructuring reads the
  three fields of the merged object.
\<close>

definition DEFAULT_CONFIG :: "string \<rightharpoonup> int" where
  "DEFAULT_CONFIG = [''maxRetries'' \<mapsto> 3, ''retryDelay'' \<mapsto> 1000, ''timeout'' \<mapsto> 30000]"

definition merge_config :: "(string \<rightharpoonup> int) \<Rightarrow> request_config" where
  "merge_config config =
     (let merged = DEFAULT_CONFIG ++ config
      in \<lparr>maxRetries = the (merged ''maxRetries''),
          retryDelay = the (merged ''retryDelay''),
          timeout = the (merged ''timeout'')\<rparr>)"

subsection \<open>Classification\<close>

text \<open>\<open>s.includes(pat)\<close>: \<open>pat\<close> occurs in \<open>s\<close> as a contiguous run.\<close>

fun includes_str :: "string \<Rightarrow> string \<Rightarrow> bool" where
  "includes_str [] pat = (pat = [])"
| "includes_str (c # cs) pat = (take (length pat) (c # cs) = pat \<or> includes_str cs pat)"

text \<open>
  Comparisons with a missing \<open>status\<close> are false, and a missing \<open>name\<close> equals no
  string.
\<close>

definition isRetryableError :: "js_error \<Rightarrow> bool" where
  "isRetryableError e =
     (if exn_name e = Some ''TypeError'' \<and> includes_str (exn_message e) ''fetch'' then True
      else if exn_name e = Some ''AbortError'' then True
      else if (case exn_status e of None \<Rightarrow> False | Some s \<Rightarrow> 500 \<le> s \<and> s \<le> 599) then True
      else if exn_status e = Some 429 then True
      else False)"

definition status_only :: "int \<Rightarrow> js_error" where
  "status_only s =
     \<lparr>exn_name = None, exn_message = [], exn_status = Some s, exn_is_TypeError = False\<rparr>"

text \<open>The \<open>switch\<close> on the status that sets the message of an HTTP error.\<close>

definition http_message :: "int \<Rightarrow> string \<Rightarrow> string" where
  "http_message st statusText =
     (if st = 400 then ''Bad Request: Invalid search query or parameters''
      else if st = 401 then ''Unauthorized: Invalid or missing API key''
      else if st = 403 then ''Forbidden: API key may be invalid or quota exceeded''
      else if st = 404 then ''Not Found: No results found for the specified query''
      else if st = 429 then ''Rate Limited: Too many requests. Retrying...''
      else if st = 500 then ''Server Error: OpenFDA service is experiencing issues''
      else ''HTTP Error '' @ string_of_int st @ '': '' @ statusText)"

text \<open>
  The HTTP error record: built with a first message, which the \<open>switch\<close> then
  replaces in every case.
\<close>

definition httpError :: "response \<Rightarrow> error_record" where
  "httpError r =
     (let errorText = (case resp_text r of
                         None \<Rightarrow> ''Unable to read error response''
                       | Some t \<Rightarrow> t);
          e = \<lparr>err_type = Http,
               err_message = ''HTTP '' @ string_of_int (resp_status r) @ '': ''
                             @ resp_statusText r,
               err_status = Some (resp_status r),
               err_details = Some (Text errorText)\<rparr>
      in e\<lparr>err_message := http_message (resp_status r) (resp_statusText r)\<rparr>)"

text \<open>
  The error of the inner \<open>catch\<close>. What \<open>response.json()\<close> rejects with is an
  \<open>Error\<close> instance, so the message is built from its \<open>message\<close>.
\<close>

definition parsingError :: "js_error \<Rightarrow> error_record" where
  "parsingError parseError =
     \<lparr>err_type = Parsing,
      err_message = ''Failed to parse JSON response: '' @ exn_message parseError,
      err_status = None,
      err_details = Some (Exn parseError)\<rparr>"

definition emptyError :: error_record where
  "emptyError =
     \<lparr>err_type = Empty_response,
      err_message = ''Received empty response from OpenFDA API'',
      err_status = None,
      err_details = None\<rparr>"

text \<open>The error built in the outer \<open>catch\<close>.\<close>

definition networkError :: "request_config \<Rightarrow> js_error \<Rightarrow> error_record" where
  "networkError cfg e =
     (if exn_name e = Some ''AbortError'' then
        \<lparr>err_type = Timeout,
         err_message = ''Request timeout after '' @ string_of_int (timeout cfg) @ ''ms'',
         err_status = None,
         err_details = Some (Exn e)\<rparr>
      else if exn_is_TypeError e \<and> includes_str (exn_message e) ''fetch'' then
        \<lparr>err_type = Network,
         err_message = ''Network error: Unable to connect to OpenFDA API'',
         err_status = None,
         err_details = Some (Text (exn_message e))\<rparr>
      else
        \<lparr>err_type = Unknown,
         err_message = ''Unexpected error: ''
            @ (if exn_message e \<noteq> [] then exn_message e else ''Unknown error occurred''),
         err_status = None,
         err_details = Some (Exn e)\<rparr>)"

subsection \<open>One attempt and the retry loop\<close>

text \<open>
  How one pass through the loop body ends: \<open>return\<close> with the data, \<open>break\<close> with
  \<open>lastError\<close> set, or \<open>continue\<close> with \<open>lastError\<close> set after sleeping for a delay.
\<close>

datatype attempt_end = Return json | Break error_record | Continue error_record int

definition attempt_body :: "request_config \<Rightarrow> nat \<Rightarrow> fetch_outcome \<Rightarrow> attempt_end" where
  "attempt_body cfg attempt outcome =
     (case outcome of
        Resolved r \<Rightarrow>
          if \<not> ok r then
            (if 400 \<le> resp_status r \<and> resp_status r < 500 \<and> resp_status r \<noteq> 429 then
               Break (httpError r)
             else if int attempt < maxRetries cfg
                     \<and> isRetryableError (status_only (resp_status r)) then
               Continue (httpError r) (retryDelay cfg * 2 ^ attempt)
             else Break (httpError r))
          else
            (case resp_json r of
               ParseFailure parseError \<Rightarrow> Break (parsingError parseError)
             | Parsed parsedData \<Rightarrow>
                 if \<not> truthy parsedData then Break emptyError
                 else Return parsedData)
      | Rejected e \<Rightarrow>
          if int attempt < maxRetries cfg \<and> isRetryableError e then
            Continue (networkError cfg e) (retryDelay cfg * 2 ^ attempt)
          else Break (networkError cfg e))"

text \<open>
  The \<open>for\<close> loop. \<open>fetch\<close> gives the outcome of the fetch issued at each attempt
  index. Leaving the loop, by \<open>break\<close> or by the loop condition, returns
  \<open>{ data: null, error: lastError }\<close>.
\<close>

function attempt_loop ::
  "request_config \<Rightarrow> (nat \<Rightarrow> fetch_outcome) \<Rightarrow> nat \<Rightarrow> trace \<Rightarrow> error_record option
     \<Rightarrow> request_result \<times> trace" where
  "attempt_loop cfg fetch attempt tr lastError =
     (if int attempt \<le> maxRetries cfg then
        (case attempt_body cfg attempt (fetch attempt) of
           Return parsedData \<Rightarrow>
             (\<lparr>data = Some parsedData, error = None\<rparr>, tr\<lparr>attempts := attempts tr + 1\<rparr>)
         | Break e \<Rightarrow>
             (\<lparr>data = None, error = Some e\<rparr>, tr\<lparr>attempts := attempts tr + 1\<rparr>)
         | Continue e delay \<Rightarrow>
             attempt_loop cfg fetch (attempt + 1)
               (tr\<lparr>attempts := attempts tr + 1, sleeps := sleeps tr @ [delay]\<rparr>) (Some e))
      else (\<lparr>data = None, error = lastError\<rparr>, tr))"
  by pat_completeness auto
termination
  by (relation "measure (\<lambda>(cfg, fetch, attempt, tr, lastError).
                  nat (maxRetries cfg + 1 - int attempt))") auto

definition makeOpenFDARequest ::
  "(string \<Rightarrow> nat \<Rightarrow> fetch_outcome) \<Rightarrow> string \<Rightarrow> (string \<rightharpoonup> int)
     \<Rightarrow> request_result \<times> trace" where
  "makeOpenFDARequest world u config =
     attempt_loop (merge_config config) (world u) 0 \<lparr>attempts = 0, sleeps = []\<rparr> None"

subsection \<open>Sample inputs\<close>

definition unavailable :: response where
  "unavailable =
     \<lparr>resp_status = 503, resp_statusText = ''Service Unavailable'',
      resp_text = Some ''busy'', resp_json = Parsed JNull\<rparr>"

definition not_found :: response where
  "not_found =
     \<lparr>resp_status = 404, resp_statusText = ''Not Found'',
      resp_text = None, resp_json = Parsed JNull\<rparr>"

definition syntax_error :: js_error where
  "syntax_error =
     \<lparr>exn_name = Some ''SyntaxError'', exn_message = ''Unexpected token < in JSON'',
      exn_status = None, exn_is_TypeError = False\<rparr>"

definition malformed :: response where
  "malformed =
     \<lparr>resp_status = 200, resp_statusText = ''OK'',
      resp_text = Some ''<html>'', resp_json = ParseFailure syntax_error\<rparr>"

definition json_false :: response where
  "json_false =
     \<lparr>resp_status = 200, resp_statusText = ''OK'',
      resp_text = Some ''false'', resp_json = Parsed (JBool False)\<rparr>"

definition boom :: js_error where
  "boom =
     \<lparr>exn_name = Some ''Error'', exn_message = ''boom'',
      exn_status = None, exn_is_TypeError = False\<rparr>"

definition gateway_failure :: js_error where
  "gateway_failure =
     \<lparr>exn_name = Some ''Error'', exn_message = ''bad gateway'',
      exn_status = Some 502, exn_is_TypeError = False\<rparr>"

declare attempt_loop.simps [simp del]

section \<open>Properties of \<open>normalizeNDC\<close>\<close>

lemma isDigit_not_space: "isDigit c \<Longrightarrow> \<not> isWhiteSpace c"
  by (simp add: isDigit_def isWhiteSpace_def Let_def)

lemma isDigit_upper: "isDigit c \<Longrightarrow> toUpperChar c = c"
  by (simp add: isDigit_def toUpperChar_def Let_def)

lemma isDigit_not_dash: "isDigit c \<Longrightarrow> c \<noteq> CHR ''-''"
  by (auto simp add: isDigit_def Let_def)

lemma split_str_no_sep: "sep \<notin> set xs \<Longrightarrow> split_str sep xs = [xs]"
  by (induction xs) auto

lemma split_str_first: "sep \<notin> set a \<Longrightarrow> split_str sep (a @ sep # b) = a # split_str sep b"
  by (induction a) auto

lemma trim_id:
  assumes "s \<noteq> []" "\<not> isWhiteSpace (hd s)" "\<not> isWhiteSpace (last s)"
  shows "trim s = s"
proof -
  from assms have a: "dropWhile isWhiteSpace s = s" by (cases s) auto
  from assms have "rev s \<noteq> []" "\<not> isWhiteSpace (hd (rev s))" by (auto simp: hd_rev)
  then have b: "dropWhile isWhiteSpace (rev s) = rev s" by (cases "rev s") auto
  show ?thesis by (simp add: trim_def a b)
qed

lemma test_product_shape:
  assumes "test_product p"
  obtains a b where "p = a @ CHR ''-'' # b" "length a = 5" "length b = 4"
    "list_all isDigit a" "list_all isDigit b"
proof -
  from assms have len: "length p = 10" and da: "list_all isDigit (take 5 p)"
    and mid: "take 1 (drop 5 p) = ''-''" and db: "list_all isDigit (drop 6 p)"
    by (simp_all add: test_product_def)
  have "p = take 5 p @ drop 5 p" by simp
  moreover have "drop 5 p = take 1 (drop 5 p) @ drop 1 (drop 5 p)"
    by (simp only: append_take_drop_id)
  moreover have "drop 1 (drop 5 p) = drop 6 p" by simp
  ultimately have "p = take 5 p @ CHR ''-'' # drop 6 p"
    using mid by (metis append_Cons append_Nil)
  moreover have "length (take 5 p) = 5" "length (drop 6 p) = 4" using len by simp_all
  ultimately show ?thesis using that da db by blast
qed

text \<open>A string of the form five digits, dash, four digits normalises to itself.\<close>

lemma normalizeNDC_product:
  assumes "test_product p"
  shows "normalizeNDC p = \<lparr>productNDC = p, packageNDC = None, isValid = True\<rparr>"
proof -
  from assms obtain a b where p: "p = a @ CHR ''-'' # b"
    and la: "length a = 5" and lb: "length b = 4"
    and da: "list_all isDigit a" and db: "list_all isDigit b"
    by (rule test_product_shape)
  from la da have ha: "a \<noteq> []" "isDigit (hd a)" by (cases a; simp)+
  from lb db have hb: "b \<noteq> []" "isDigit (last b)" by (cases b rule: rev_cases; simp)+
  have "trim p = p"
    using ha hb by (intro trim_id) (simp_all add: p isDigit_not_space)
  moreover have "toUpperCase p = p"
    using da db
    by (simp add: p toUpperCase_def list_all_iff isDigit_upper map_idI isDigit_not_dash
        toUpperChar_def [of "CHR ''-''"])
  moreover have "CHR ''-'' \<notin> set a" "CHR ''-'' \<notin> set b"
    using da db isDigit_not_dash by (auto simp: list_all_iff)
  then have "split_str CHR ''-'' p = [a, b]"
    by (simp add: p split_str_first split_str_no_sep)
  ultimately show ?thesis using assms by (simp add: normalizeNDC_def p)
qed

lemma normalizeNDC_valid:
  "isValid (normalizeNDC s) \<Longrightarrow> test_product (productNDC (normalizeNDC s))"
  by (simp add: normalizeNDC_def Let_def split: if_splits)

text \<open>
  Claim C2, as the code has it. The code tells the layouts apart by dashes and length
  alone: a cleaned input with a dash and a segment count other than two or three, or
  without a dash and of a length other than eleven or nine, comes back unchanged as
  \<open>productNDC\<close>, with no package code and \<open>isValid = false\<close>. The package code is
  present only when the cleaned input has three dash-separated segments or is eleven
  characters long without a dash, whether or not those characters are digits.
\<close>

theorem normalizeNDC_unrecognized:
  "((CHR ''-'' \<in> set (toUpperCase (trim s))
       \<and> length (split_str CHR ''-'' (toUpperCase (trim s))) \<noteq> 2
       \<and> length (split_str CHR ''-'' (toUpperCase (trim s))) \<noteq> 3)
    \<or> (CHR ''-'' \<notin> set (toUpperCase (trim s))
       \<and> length (toUpperCase (trim s)) \<noteq> 11 \<and> length (toUpperCase (trim s)) \<noteq> 9)
    \<longrightarrow> normalizeNDC s
        = \<lparr>productNDC = toUpperCase (trim s), packageNDC = None, isValid = False\<rparr>)
   \<and> (packageNDC (normalizeNDC s) \<noteq> None
    \<longrightarrow> (CHR ''-'' \<in> set (toUpperCase (trim s))
         \<and> length (split_str CHR ''-'' (toUpperCase (trim s))) = 3)
      \<or> (CHR ''-'' \<notin> set (toUpperCase (trim s)) \<and> length (toUpperCase (trim s)) = 11))"
  by (simp add: normalizeNDC_def Let_def)

text \<open>
  The theorem at two inputs: \<open>" abc "\<close> has no dash and three characters, and
  \<open>"12345-6789-01"\<close> carries a package code and has three segments.
\<close>

theorem normalizeNDC_unrecognized_witness:
  "CHR ''-'' \<notin> set (toUpperCase (trim '' abc ''))
   \<and> length (toUpperCase (trim '' abc '')) = 3
   \<and> normalizeNDC '' abc '' = \<lparr>productNDC = ''ABC'', packageNDC = None, isValid = False\<rparr>
   \<and> packageNDC (normalizeNDC ''12345-6789-01'') = Some ''12345-6789-01''
   \<and> length (split_str CHR ''-'' (toUpperCase (trim ''12345-6789-01''))) = 3"
proof -
  have c: "toUpperCase (trim '' abc '') = ''ABC''" by code_simp
  have d: "toUpperCase (trim ''12345-6789-01'') = ''12345-6789-01''" by code_simp
  have k: "packageNDC (normalizeNDC ''12345-6789-01'') = Some ''12345-6789-01''" by code_simp
  from normalizeNDC_unrecognized [of "'' abc ''"]
  have 1: "normalizeNDC '' abc '' = \<lparr>productNDC = ''ABC'', packageNDC = None, isValid = False\<rparr>"
    by (simp add: c)
  from normalizeNDC_unrecognized [of "''12345-6789-01''"] k
  have 2: "length (split_str CHR ''-'' (toUpperCase (trim ''12345-6789-01''))) = 3"
    by (simp add: d)
  from 1 2 k show ?thesis by (simp add: c)
qed

text \<open>
  Against C2 as stated: \<open>"123456789ab"\<close> is none of the four layouts (it has no dash
  and is not all digits), yet the result is valid, its product code is not the cleaned
  input, and it has a package code.
\<close>

theorem normalizeNDC_unrecognized_counterexample:
  "\<not> spec_recognized_layout ''123456789ab''
   \<and> toUpperCase (trim ''123456789ab'') = ''123456789AB''
   \<and> normalizeNDC ''123456789ab''
     = \<lparr>productNDC = ''12345-6789'', packageNDC = Some ''12345-6789-AB'', isValid = True\<rparr>"
  by code_simp

text \<open>
  Claim C9: for every input whose normalisation is valid, in particular every valid
  two-segment or three-segment dashed input, normalising the product code again gives
  the same product code.
\<close>

theorem normalizeNDC_idempotent:
  assumes "isValid (normalizeNDC s)"
  shows "productNDC (normalizeNDC (productNDC (normalizeNDC s))) = productNDC (normalizeNDC s)"
  using normalizeNDC_product [OF normalizeNDC_valid [OF assms]] by simp

theorem normalizeNDC_idempotent_witness:
  "isValid (normalizeNDC '' 12345-1234-01'')
   \<and> productNDC (normalizeNDC '' 12345-1234-01'') = ''12345-1234''
   \<and> productNDC (normalizeNDC (productNDC (normalizeNDC '' 12345-1234-01''))) = ''12345-1234''"
proof -
  have v: "isValid (normalizeNDC '' 12345-1234-01'')" by code_simp
  have p: "productNDC (normalizeNDC '' 12345-1234-01'') = ''12345-1234''" by code_simp
  from normalizeNDC_idempotent [OF v] v p show ?thesis by simp
qed

section \<open>Properties of the URL builder\<close>

lemma truthy_param_iff:
  "truthy_param v \<longleftrightarrow> \<not> (v = None \<or> v = Some (PStr []) \<or> v = Some (PNum 0))"
  by (rule truthy_param.induct) simp_all

text \<open>
  Claim C5, as the code has it. \<open>build\<close> fails with the missing-parameters error when
  one of context, search and limit is absent, and also when it is stored as the empty
  string or as \<open>0\<close>; otherwise it returns the base \<open>https://api.fda.gov/drug/\<close>
  followed directly (no further slash) by
  \<open><context>.json?api_key=<credential>&search=<search>&limit=<limit>\<close>, with the
  credential read when \<open>build\<close> is called.
\<close>

theorem build_result:
  "build apiKey b =
     (if \<exists>k \<in> {''context'', ''search'', ''limit''}.
           params b k = None \<or> params b k = Some (PStr []) \<or> params b k = Some (PNum 0)
      then Inl (Error ''Missing required parameters: context, search, or limit'')
      else Inr (''https://api.fda.gov/drug/'' @ template_param (params b ''context'')
                @ ''.json?api_key='' @ (case apiKey of None \<Rightarrow> ''undefined'' | Some k \<Rightarrow> k)
                @ ''&search='' @ template_param (params b ''search'')
                @ ''&limit='' @ template_param (params b ''limit'')))"
  by (simp add: build_def Let_def truthy_param_iff url_def)

theorem build_result_witness:
  "build (Some ''K'') (limit (Some 5) (search ''a:b'' (set_context Ndc new_OpenFDABuilder)))
     = Inr ''https://api.fda.gov/drug/ndc.json?api_key=K&search=a:b&limit=5''
   \<and> build (Some ''K'') (search ''a:b'' (set_context Ndc new_OpenFDABuilder))
     = Inl (Error ''Missing required parameters: context, search, or limit'')"
  using
    build_result [of "Some ''K''"
      "limit (Some 5) (search ''a:b'' (set_context Ndc new_OpenFDABuilder))"]
    build_result [of "Some ''K''" "search ''a:b'' (set_context Ndc new_OpenFDABuilder)"]
  by (simp add: limit_def search_def set_context_def new_OpenFDABuilder_def string_of_int_def digit_char_def)

text \<open>
  Against C5 as stated: with all three parameters set, the URL has one slash between
  \<open>drug\<close> and the context, not the two that \<open><base>/<context>\<close> gives for a base ending
  in a slash; and a builder whose limit was set to \<open>0\<close> has all three parameters stored
  and still fails.
\<close>

theorem build_result_counterexample:
  "build (Some ''K'') (limit (Some 1) (search ''x'' (set_context Label new_OpenFDABuilder)))
     = Inr ''https://api.fda.gov/drug/label.json?api_key=K&search=x&limit=1''
   \<and> build (Some ''K'') (limit (Some 1) (search ''x'' (set_context Label new_OpenFDABuilder)))
     \<noteq> Inr (''https://api.fda.gov/drug/'' @ ''/'' @ ''label'' @ ''.json?api_key='' @ ''K''
             @ ''&search='' @ ''x'' @ ''&limit='' @ ''1'')
   \<and> params (limit (Some 0) (search ''x'' (set_context Label new_OpenFDABuilder))) ''limit''
     \<noteq> None
   \<and> build (Some ''K'') (limit (Some 0) (search ''x'' (set_context Label new_OpenFDABuilder)))
     = Inl (Error ''Missing required parameters: context, search, or limit'')"
  by (simp add: build_def limit_def search_def set_context_def new_OpenFDABuilder_def
      string_of_int_def digit_char_def url_def)

text \<open>
  Claim C8, as the code has it. On a builder whose context has been set and whose search
  has been set to a non-empty expression, \<open>limit()\<close> with no argument stores 1 and
  \<open>build\<close> succeeds with \<open>limit=1\<close>; if no limit was ever stored, \<open>build\<close>
  fails. The guard of \<open>build\<close> tests \<open>!search\<close>, so the search has to be non-empty.
\<close>

theorem limit_default:
  assumes "params b ''context'' = Some (PStr (ContextType_str c))"
    and "params b ''search'' = Some (PStr query)" and "query \<noteq> []"
  shows "params (limit None b) ''limit'' = Some (PNum 1)
   \<and> build apiKey (limit None b)
       = Inr (''https://api.fda.gov/drug/'' @ ContextType_str c
              @ ''.json?api_key='' @ (case apiKey of None \<Rightarrow> ''undefined'' | Some k \<Rightarrow> k)
              @ ''&search='' @ query @ ''&limit=1'')
   \<and> (params b ''limit'' = None \<longrightarrow>
        build apiKey b = Inl (Error ''Missing required parameters: context, search, or limit''))"
proof -
  have "ContextType_str c \<noteq> []" by (cases c) simp_all
  with assms show ?thesis
    by (simp add: build_def limit_def url_def string_of_int_def digit_char_def)
qed

theorem limit_default_witness:
  "params (search ''x'' (set_context Label new_OpenFDABuilder)) ''context''
     = Some (PStr (ContextType_str Label))
   \<and> params (search ''x'' (set_context Label new_OpenFDABuilder)) ''search'' = Some (PStr ''x'')
   \<and> params (search ''x'' (set_context Label new_OpenFDABuilder)) ''limit'' = None
   \<and> build (Some ''K'') (limit None (search ''x'' (set_context Label new_OpenFDABuilder)))
     = Inr ''https://api.fda.gov/drug/label.json?api_key=K&search=x&limit=1''
   \<and> build (Some ''K'') (search ''x'' (set_context Label new_OpenFDABuilder))
     = Inl (Error ''Missing required parameters: context, search, or limit'')"
proof -
  let ?b = "search ''x'' (set_context Label new_OpenFDABuilder)"
  have c: "params ?b ''context'' = Some (PStr (ContextType_str Label))"
    and s: "params ?b ''search'' = Some (PStr ''x'')"
    and l: "params ?b ''limit'' = None"
    by (simp_all add: search_def set_context_def new_OpenFDABuilder_def)
  from limit_default [OF c s, of "Some ''K''"] c s l show ?thesis by simp
qed

text \<open>
  Against C8 as stated: with the context set, the search set to the empty string and
  \<open>limit()\<close> invoked with no argument, all three parameters are stored, the limit
  is 1, and \<open>build\<close> still fails.
\<close>

theorem limit_default_counterexample:
  "params (limit None (search [] (set_context Label new_OpenFDABuilder))) ''context''
     = Some (PStr ''label'')
   \<and> params (limit None (search [] (set_context Label new_OpenFDABuilder))) ''search''
     = Some (PStr [])
   \<and> params (limit None (search [] (set_context Label new_OpenFDABuilder))) ''limit''
     = Some (PNum 1)
   \<and> build (Some ''K'') (limit None (search [] (set_context Label new_OpenFDABuilder)))
     = Inl (Error ''Missing required parameters: context, search, or limit'')"
  by (simp add: build_def limit_def search_def set_context_def new_OpenFDABuilder_def)

section \<open>Properties of the request client\<close>

subsection \<open>One attempt\<close>

lemma attempt_body_Continue:
  "attempt_body cfg k out = Continue e d
   \<Longrightarrow> int k < maxRetries cfg \<and> d = retryDelay cfg * 2 ^ k"
  by (auto simp: attempt_body_def split: fetch_outcome.splits if_splits json_outcome.splits)

lemma attempt_body_Return: "attempt_body cfg k out = Return v \<Longrightarrow> truthy v"
  by (auto simp: attempt_body_def split: fetch_outcome.splits if_splits json_outcome.splits)

lemma http_message_nonempty: "http_message st txt \<noteq> []"
  by (simp add: http_message_def)

lemma httpError_fields:
  "err_message (httpError r) \<noteq> [] \<and> err_type (httpError r) = Http
   \<and> err_status (httpError r) = Some (resp_status r)"
  by (simp add: httpError_def Let_def http_message_nonempty)

lemma networkError_message: "err_message (networkError cfg e) \<noteq> []"
  by (simp add: networkError_def)

lemma attempt_body_message:
  "attempt_body cfg k out = Break e \<or> attempt_body cfg k out = Continue e d
   \<Longrightarrow> err_message e \<noteq> []"
  by (auto simp: attempt_body_def httpError_fields networkError_message parsingError_def
      emptyError_def split: fetch_outcome.splits if_splits json_outcome.splits)

lemma falsy_values:
  "\<not> truthy v \<longleftrightarrow> v \<in> {JNull, JBool False, JNumber 0, JString []}"
  by (cases v) auto

subsection \<open>The loop, one step at a time\<close>

lemma attempt_loop_step:
  "int k \<le> maxRetries cfg \<Longrightarrow>
   attempt_loop cfg fetch k tr le =
     (case attempt_body cfg k (fetch k) of
        Return v \<Rightarrow> (\<lparr>data = Some v, error = None\<rparr>, tr\<lparr>attempts := attempts tr + 1\<rparr>)
      | Break e \<Rightarrow> (\<lparr>data = None, error = Some e\<rparr>, tr\<lparr>attempts := attempts tr + 1\<rparr>)
      | Continue e d \<Rightarrow>
          attempt_loop cfg fetch (k + 1)
            (tr\<lparr>attempts := attempts tr + 1, sleeps := sleeps tr @ [d]\<rparr>) (Some e))"
  by (simp add: attempt_loop.simps [of cfg fetch k])

lemma attempt_loop_exit:
  "\<not> int k \<le> maxRetries cfg
   \<Longrightarrow> attempt_loop cfg fetch k tr le = (\<lparr>data = None, error = le\<rparr>, tr)"
  by (simp add: attempt_loop.simps [of cfg fetch k])

subsection \<open>Invariants of the loop\<close>

lemma attempt_loop_bound:
  "attempts (snd (attempt_loop cfg fetch k tr le))
     \<le> attempts tr + nat (maxRetries cfg + 1 - int k)"
proof (induction cfg fetch k tr le rule: attempt_loop.induct)
  case (1 cfg fetch attempt tr lastError)
  show ?case
  proof (cases "int attempt \<le> maxRetries cfg")
    case False
    then show ?thesis by (simp add: attempt_loop_exit)
  next
    case True
    show ?thesis
    proof (cases "attempt_body cfg attempt (fetch attempt)")
      case (Return v)
      with True show ?thesis by (simp add: attempt_loop_step)
    next
      case (Break e)
      with True show ?thesis by (simp add: attempt_loop_step)
    next
      case (Continue e d)
      from "1.IH" [OF True Continue] True Continue show ?thesis
        by (simp add: attempt_loop_step)
    qed
  qed
qed

lemma attempt_loop_exclusive:
  "int k \<le> maxRetries cfg \<Longrightarrow>
   (let r = fst (attempt_loop cfg fetch k tr le) in
      (\<exists>v. data r = Some v \<and> truthy v \<and> error r = None)
      \<or> (data r = None \<and> (\<exists>e. error r = Some e \<and> err_message e \<noteq> [])))"
proof (induction cfg fetch k tr le rule: attempt_loop.induct)
  case (1 cfg fetch attempt tr lastError)
  note le = \<open>int attempt \<le> maxRetries cfg\<close>
  show ?case
  proof (cases "attempt_body cfg attempt (fetch attempt)")
    case (Return v)
    with le attempt_body_Return [OF Return] show ?thesis
      by (simp add: attempt_loop_step)
  next
    case (Break e)
    with le attempt_body_message [of cfg attempt "fetch attempt" e] show ?thesis
      by (simp add: attempt_loop_step)
  next
    case (Continue e d)
    from attempt_body_Continue [OF Continue] have "int (attempt + 1) \<le> maxRetries cfg"
      by simp
    from "1.IH" [OF le Continue this] le Continue show ?thesis
      by (simp add: attempt_loop_step)
  qed
qed

text \<open>Every attempt answered with status 503: the loop runs to the last attempt index.\<close>

lemma attempt_loop_503:
  assumes all: "\<And>i. resp_status (rs i) = 503" and fetch: "\<And>i. fetch i = Resolved (rs i)"
    and n: "maxRetries cfg = int n"
  shows "k \<le> n \<Longrightarrow> attempt_loop cfg fetch k tr le
     = (\<lparr>data = None, error = Some (httpError (rs n))\<rparr>,
        \<lparr>attempts = attempts tr + (n + 1 - k),
         sleeps = sleeps tr @ map (\<lambda>i. retryDelay cfg * 2 ^ i) [k..<n]\<rparr>)"
proof (induction "n - k" arbitrary: k tr le)
  case 0
  then have kn: "k = n" by simp
  have "attempt_body cfg n (fetch n) = Break (httpError (rs n))"
    by (simp add: attempt_body_def fetch all ok_def n)
  then show ?case
    by (simp add: attempt_loop_step kn n)
next
  case (Suc m)
  then have lt: "k < n" and m: "m = n - (k + 1)" and le': "k + 1 \<le> n" by simp_all
  have "attempt_body cfg k (fetch k) = Continue (httpError (rs k)) (retryDelay cfg * 2 ^ k)"
    using lt
    by (simp add: attempt_body_def fetch all ok_def n isRetryableError_def status_only_def)
  then have "attempt_loop cfg fetch k tr le
      = attempt_loop cfg fetch (k + 1)
          (tr\<lparr>attempts := attempts tr + 1, sleeps := sleeps tr @ [retryDelay cfg * 2 ^ k]\<rparr>)
          (Some (httpError (rs k)))"
    using lt by (simp add: attempt_loop_step n)
  also have "\<dots> = (\<lparr>data = None, error = Some (httpError (rs n))\<rparr>,
        \<lparr>attempts = attempts tr + (n + 1 - k),
         sleeps = sleeps tr @ map (\<lambda>i. retryDelay cfg * 2 ^ i) [k..<n]\<rparr>)"
    using Suc.hyps(1) [OF m le'] lt by (simp add: upt_conv_Cons)
  finally show ?case .
qed

subsection \<open>Configuration\<close>

text \<open>
  Claim C7: each of the three fields of the configuration in force is the caller's value
  when the caller's object has that field and the default otherwise (3 retries, 1000 ms
  delay, 30000 ms timeout), and the request runs under that configuration. The fields are
  named \<open>maxRetries\<close>, \<open>retryDelay\<close> and \<open>timeout\<close> in the code.
\<close>

theorem config_defaults:
  "merge_config config
     = \<lparr>maxRetries = (case config ''maxRetries'' of None \<Rightarrow> 3 | Some v \<Rightarrow> v),
        retryDelay = (case config ''retryDelay'' of None \<Rightarrow> 1000 | Some v \<Rightarrow> v),
        timeout = (case config ''timeout'' of None \<Rightarrow> 30000 | Some v \<Rightarrow> v)\<rparr>
   \<and> makeOpenFDARequest world u config
     = attempt_loop (merge_config config) (world u) 0 \<lparr>attempts = 0, sleeps = []\<rparr> None"
  by (simp add: merge_config_def DEFAULT_CONFIG_def Let_def map_add_def makeOpenFDARequest_def
      split: option.splits)

theorem config_defaults_witness:
  "merge_config Map.empty = \<lparr>maxRetries = 3, retryDelay = 1000, timeout = 30000\<rparr>
   \<and> merge_config [''retryDelay'' \<mapsto> 5] = \<lparr>maxRetries = 3, retryDelay = 5, timeout = 30000\<rparr>
   \<and> merge_config [''maxRetries'' \<mapsto> 0, ''timeout'' \<mapsto> 10]
       = \<lparr>maxRetries = 0, retryDelay = 1000, timeout = 10\<rparr>"
  using config_defaults [of Map.empty] config_defaults [of "[''retryDelay'' \<mapsto> 5]"]
    config_defaults [of "[''maxRetries'' \<mapsto> 0, ''timeout'' \<mapsto> 10]"]
  by simp

lemma merge_config_maxRetries_2:
  "merge_config [''maxRetries'' \<mapsto> 2] = \<lparr>maxRetries = 2, retryDelay = 1000, timeout = 30000\<rparr>"
  by (simp add: merge_config_def DEFAULT_CONFIG_def)

lemma merge_config_empty:
  "merge_config Map.empty = \<lparr>maxRetries = 3, retryDelay = 1000, timeout = 30000\<rparr>"
  by (simp add: merge_config_def DEFAULT_CONFIG_def)

subsection \<open>The retry ceiling\<close>

text \<open>
  Claim C3: with \<open>maxRetries = n \<ge> 0\<close> a call issues at most \<open>n + 1\<close> fetches; and when
  every attempt is answered with status 503 it issues exactly \<open>n + 1\<close>, sleeps
  \<open>retryDelay * 2^i\<close> after attempt \<open>i\<close> for \<open>i = 0..n-1\<close>, and returns no data and an
  error of type \<open>http\<close> with status 503.
\<close>

theorem attempts_bounded:
  assumes "0 \<le> maxRetries (merge_config config)"
  shows "attempts (snd (makeOpenFDARequest world u config))
           \<le> nat (maxRetries (merge_config config)) + 1
   \<and> ((\<forall>i. \<exists>r. world u i = Resolved r \<and> resp_status r = 503) \<longrightarrow>
        attempts (snd (makeOpenFDARequest world u config))
          = nat (maxRetries (merge_config config)) + 1
        \<and> sleeps (snd (makeOpenFDARequest world u config))
          = map (\<lambda>i. retryDelay (merge_config config) * 2 ^ i)
              [0..<nat (maxRetries (merge_config config))]
        \<and> data (fst (makeOpenFDARequest world u config)) = None
        \<and> (\<exists>e. error (fst (makeOpenFDARequest world u config)) = Some e
               \<and> err_type e = Http \<and> err_status e = Some 503))"
proof (intro conjI impI)
  let ?cfg = "merge_config config"
  let ?n = "nat (maxRetries ?cfg)"
  from attempt_loop_bound [of ?cfg "world u" 0 "\<lparr>attempts = 0, sleeps = []\<rparr>" None] assms
  show "attempts (snd (makeOpenFDARequest world u config)) \<le> ?n + 1"
    by (simp add: makeOpenFDARequest_def)
  assume "\<forall>i. \<exists>r. world u i = Resolved r \<and> resp_status r = 503"
  then obtain rs where rs: "\<And>i. world u i = Resolved (rs i)" "\<And>i. resp_status (rs i) = 503"
    by metis
  from assms have n: "maxRetries ?cfg = int ?n" by simp
  have run: "makeOpenFDARequest world u config
      = (\<lparr>data = None, error = Some (httpError (rs ?n))\<rparr>,
         \<lparr>attempts = ?n + 1, sleeps = map (\<lambda>i. retryDelay ?cfg * 2 ^ i) [0..<?n]\<rparr>)"
    unfolding makeOpenFDARequest_def
    using attempt_loop_503 [of rs "world u" ?cfg ?n 0 "\<lparr>attempts = 0, sleeps = []\<rparr>" None,
        OF rs(2) rs(1) n]
    by simp
  show "attempts (snd (makeOpenFDARequest world u config)) = ?n + 1"
    by (simp add: run)
  show "sleeps (snd (makeOpenFDARequest world u config))
          = map (\<lambda>i. retryDelay ?cfg * 2 ^ i) [0..<?n]"
    by (simp add: run)
  show "data (fst (makeOpenFDARequest world u config)) = None"
    by (simp add: run)
  show "\<exists>e. error (fst (makeOpenFDARequest world u config)) = Some e
               \<and> err_type e = Http \<and> err_status e = Some 503"
    by (simp add: run httpError_fields rs(2))
qed

text \<open>The specification's example: \<open>maxRetries = 2\<close>, three attempts, delays 1000 and 2000.\<close>

theorem attempts_bounded_witness:
  "0 \<le> maxRetries (merge_config [''maxRetries'' \<mapsto> 2])
   \<and> attempts (snd (makeOpenFDARequest (\<lambda>u i. Resolved unavailable) ''u''
                     [''maxRetries'' \<mapsto> 2])) = 3
   \<and> sleeps (snd (makeOpenFDARequest (\<lambda>u i. Resolved unavailable) ''u''
                   [''maxRetries'' \<mapsto> 2])) = [1000, 2000]"
proof -
  note c = merge_config_maxRetries_2
  have h: "0 \<le> maxRetries (merge_config [''maxRetries'' \<mapsto> 2])" by (simp add: c)
  have a: "\<forall>i. \<exists>r. (\<lambda>u i. Resolved unavailable) ''u'' i = Resolved r \<and> resp_status r = 503"
    by (simp add: unavailable_def)
  have u: "map (\<lambda>i. 1000 * 2 ^ i) [0..<2] = [1000, 2000 :: int]" by code_simp
  from attempts_bounded [OF h, of "\<lambda>u i. Resolved unavailable" "''u''"] a h
  show ?thesis by (simp add: c u)
qed

subsection \<open>Terminal classifications\<close>

text \<open>
  Claim C4: a response with a non-retryable classification ends the call at that
  attempt. At any attempt index \<open>k\<close> within the ceiling, a non-2xx status outside
  500..599 and other than 429 (404, say) returns the \<open>http\<close> error with that status
  after this one further fetch and no sleep, and a 2xx response whose body fails to parse
  returns the \<open>parsing\<close> error likewise; on the first attempt the call has then issued
  exactly one fetch, whatever \<open>maxRetries \<ge> 0\<close> is.
\<close>

theorem terminal_no_retry:
  assumes "int k \<le> maxRetries cfg" and "fetch k = Resolved r"
    and "0 \<le> maxRetries (merge_config config)" and "world u 0 = Resolved r"
  shows
   "(\<not> ok r \<and> \<not> (500 \<le> resp_status r \<and> resp_status r \<le> 599) \<and> resp_status r \<noteq> 429
       \<longrightarrow> attempt_loop cfg fetch k tr le
             = (\<lparr>data = None, error = Some (httpError r)\<rparr>, tr\<lparr>attempts := attempts tr + 1\<rparr>)
           \<and> makeOpenFDARequest world u config
             = (\<lparr>data = None, error = Some (httpError r)\<rparr>, \<lparr>attempts = 1, sleeps = []\<rparr>)
           \<and> err_type (httpError r) = Http
           \<and> err_status (httpError r) = Some (resp_status r))
    \<and> (resp_status r = 404
       \<longrightarrow> makeOpenFDARequest world u config
             = (\<lparr>data = None, error = Some (httpError r)\<rparr>, \<lparr>attempts = 1, sleeps = []\<rparr>)
           \<and> err_type (httpError r) = Http \<and> err_status (httpError r) = Some 404)
    \<and> (ok r \<and> resp_json r = ParseFailure pe
       \<longrightarrow> attempt_loop cfg fetch k tr le
             = (\<lparr>data = None, error = Some (parsingError pe)\<rparr>,
                tr\<lparr>attempts := attempts tr + 1\<rparr>)
           \<and> makeOpenFDARequest world u config
             = (\<lparr>data = None, error = Some (parsingError pe)\<rparr>,
                \<lparr>attempts = 1, sleeps = []\<rparr>)
           \<and> err_type (parsingError pe) = Parsing)"
proof -
  have http: "attempt_body c j (Resolved r) = Break (httpError r)"
    if "\<not> ok r" "\<not> (500 \<le> resp_status r \<and> resp_status r \<le> 599)" "resp_status r \<noteq> 429"
    for c j
    using that by (auto simp add: attempt_body_def isRetryableError_def status_only_def)
  have parse: "attempt_body c j (Resolved r) = Break (parsingError pe)"
    if "ok r" "resp_json r = ParseFailure pe" for c j
    using that by (simp add: attempt_body_def)
  have nf: "\<not> ok r \<and> \<not> (500 \<le> resp_status r \<and> resp_status r \<le> 599) \<and> resp_status r \<noteq> 429"
    if "resp_status r = 404"
    using that by (simp add: ok_def)
  have top: "makeOpenFDARequest world u config
      = (\<lparr>data = None, error = Some e\<rparr>, \<lparr>attempts = 1, sleeps = []\<rparr>)"
    if "attempt_body (merge_config config) 0 (Resolved r) = Break e" for e
    using that assms(3,4) by (simp add: makeOpenFDARequest_def attempt_loop_step)
  have inner: "attempt_loop cfg fetch k tr le
      = (\<lparr>data = None, error = Some e\<rparr>, tr\<lparr>attempts := attempts tr + 1\<rparr>)"
    if "attempt_body cfg k (Resolved r) = Break e" for e
    using that assms(1,2) by (simp add: attempt_loop_step)
  show ?thesis
    using http parse nf top inner httpError_fields [of r]
    by (auto simp add: parsingError_def)
qed

theorem terminal_no_retry_witness:
  "makeOpenFDARequest (\<lambda>u i. Resolved not_found) ''u'' Map.empty
     = (\<lparr>data = None,
         error = Some \<lparr>err_type = Http,
                       err_message = ''Not Found: No results found for the specified query'',
                       err_status = Some 404,
                       err_details = Some (Text ''Unable to read error response'')\<rparr>\<rparr>,
        \<lparr>attempts = 1, sleeps = []\<rparr>)
   \<and> makeOpenFDARequest (\<lambda>u i. Resolved malformed) ''u'' Map.empty
     = (\<lparr>data = None,
         error = Some \<lparr>err_type = Parsing,
                       err_message = ''Failed to parse JSON response: Unexpected token < in JSON'',
                       err_status = None,
                       err_details = Some (Exn syntax_error)\<rparr>\<rparr>,
        \<lparr>attempts = 1, sleeps = []\<rparr>)"
proof -
  let ?cfg = "merge_config Map.empty"
  have m: "0 \<le> maxRetries ?cfg" "int 0 \<le> maxRetries ?cfg" by (simp_all add: merge_config_empty)
  have nf: "resp_status not_found = 404" by (simp add: not_found_def)
  have e1: "httpError not_found
      = \<lparr>err_type = Http,
         err_message = ''Not Found: No results found for the specified query'',
         err_status = Some 404,
         err_details = Some (Text ''Unable to read error response'')\<rparr>"
    by (simp add: httpError_def http_message_def not_found_def)
  have mf: "ok malformed \<and> resp_json malformed = ParseFailure syntax_error"
    by (simp add: malformed_def ok_def)
  have e2: "parsingError syntax_error
      = \<lparr>err_type = Parsing,
         err_message = ''Failed to parse JSON response: Unexpected token < in JSON'',
         err_status = None,
         err_details = Some (Exn syntax_error)\<rparr>"
    by (simp add: parsingError_def) (simp add: syntax_error_def)
  from terminal_no_retry [of 0 ?cfg "\<lambda>i. Resolved not_found" not_found Map.empty
      "\<lambda>u i. Resolved not_found" "''u''", OF m(2) refl m(1) refl] nf
  have "makeOpenFDARequest (\<lambda>u i. Resolved not_found) ''u'' Map.empty
     = (\<lparr>data = None, error = Some (httpError not_found)\<rparr>, \<lparr>attempts = 1, sleeps = []\<rparr>)"
    by simp
  moreover
  from terminal_no_retry [of 0 ?cfg "\<lambda>i. Resolved malformed" malformed Map.empty
      "\<lambda>u i. Resolved malformed" "''u''" _ _ syntax_error, OF m(2) refl m(1) refl] mf
  have "makeOpenFDARequest (\<lambda>u i. Resolved malformed) ''u'' Map.empty
     = (\<lparr>data = None, error = Some (parsingError syntax_error)\<rparr>,
        \<lparr>attempts = 1, sleeps = []\<rparr>)"
    by simp
  ultimately show ?thesis by (simp only: e1 e2)
qed

text \<open>
  Claim C10: a 2xx response whose body parses to a falsy value (\<open>null\<close>, \<open>false\<close>, \<open>0\<close>
  or the empty string) ends the call at that attempt with no data and the
  \<open>empty_response\<close> error; the value is not returned as data.
\<close>

theorem falsy_is_empty_response:
  assumes "int k \<le> maxRetries cfg" and "fetch k = Resolved r"
    and "ok r" and "resp_json r = Parsed v"
    and "v \<in> {JNull, JBool False, JNumber 0, JString []}"
  shows "attempt_loop cfg fetch k tr le
           = (\<lparr>data = None, error = Some emptyError\<rparr>, tr\<lparr>attempts := attempts tr + 1\<rparr>)
         \<and> err_type emptyError = Empty_response"
proof -
  from assms(5) have "\<not> truthy v" by (simp only: falsy_values)
  with assms(2-4) have "attempt_body cfg k (fetch k) = Break emptyError"
    by (simp add: attempt_body_def)
  with assms(1) show ?thesis
    by (simp add: attempt_loop_step emptyError_def)
qed

theorem falsy_is_empty_response_witness:
  "makeOpenFDARequest (\<lambda>u i. Resolved json_false) ''u'' Map.empty
     = (\<lparr>data = None,
         error = Some \<lparr>err_type = Empty_response,
                       err_message = ''Received empty response from OpenFDA API'',
                       err_status = None, err_details = None\<rparr>\<rparr>,
        \<lparr>attempts = 1, sleeps = []\<rparr>)"
proof -
  let ?cfg = "merge_config Map.empty"
  have m: "int 0 \<le> maxRetries ?cfg" by (simp add: merge_config_empty)
  have j: "ok json_false" "resp_json json_false = Parsed (JBool False)"
    by (simp_all add: json_false_def ok_def)
  have v: "JBool False \<in> {JNull, JBool False, JNumber 0, JString []}" by simp
  from falsy_is_empty_response [of 0 ?cfg "\<lambda>i. Resolved json_false" json_false "JBool False"
      "\<lparr>attempts = 0, sleeps = []\<rparr>" None, OF m refl j v]
  show ?thesis by (simp add: makeOpenFDARequest_def emptyError_def)
qed

subsection \<open>The result is data or an error\<close>

text \<open>
  Claim C6: with \<open>maxRetries \<ge> 0\<close> the result of a call has either data (the parsed,
  truthy JSON value) and no error, or no data and an error record with a type and a
  non-empty message; never both and never neither. The call always returns: the model is
  a total function in which every \<open>catch\<close> of the source is a branch.
\<close>

theorem result_exclusive:
  assumes "0 \<le> maxRetries (merge_config config)"
  shows "((\<exists>v. data (fst (makeOpenFDARequest world u config)) = Some v \<and> truthy v)
            \<and> error (fst (makeOpenFDARequest world u config)) = None)
       \<or> (data (fst (makeOpenFDARequest world u config)) = None
            \<and> (\<exists>e. error (fst (makeOpenFDARequest world u config)) = Some e
                    \<and> err_message e \<noteq> []))"
  using attempt_loop_exclusive [of 0 "merge_config config" "world u"
      "\<lparr>attempts = 0, sleeps = []\<rparr>" None] assms
  by (auto simp add: makeOpenFDARequest_def Let_def)

theorem result_exclusive_witness:
  "0 \<le> maxRetries (merge_config Map.empty)
   \<and> data (fst (makeOpenFDARequest (\<lambda>u i. Rejected boom) ''u'' Map.empty)) = None
   \<and> error (fst (makeOpenFDARequest (\<lambda>u i. Rejected boom) ''u'' Map.empty)) \<noteq> None"
proof -
  have m: "0 \<le> maxRetries (merge_config Map.empty)" by (simp add: merge_config_empty)
  have d: "data (fst (makeOpenFDARequest (\<lambda>u i. Rejected boom) ''u'' Map.empty)) = None"
    by code_simp
  from result_exclusive [OF m, of "\<lambda>u i. Rejected boom" "''u''"] m d
  show ?thesis by auto
qed

subsection \<open>Uncategorised exceptions\<close>

text \<open>
  Claim C1, as the code has it. An exception that is neither a timeout (name
  \<open>AbortError\<close>) nor a network failure (a \<open>TypeError\<close> whose message contains
  \<open>fetch\<close>) is classified \<open>unknown\<close>. It is retried after the backoff delay only when
  attempts remain and \<open>isRetryableError\<close> accepts it, which for such an exception means
  that it carries a \<open>status\<close> in 500..599 or equal to 429, or that its name is
  \<open>TypeError\<close> and its message contains \<open>fetch\<close> although it is not a \<open>TypeError\<close>
  instance. Otherwise the call ends at that attempt with the \<open>unknown\<close> error.
\<close>

theorem unknown_exception:
  assumes "int k \<le> maxRetries cfg" and "fetch k = Rejected e"
    and "exn_name e \<noteq> Some ''AbortError''"
    and "\<not> (exn_is_TypeError e \<and> includes_str (exn_message e) ''fetch'')"
  shows "err_type (networkError cfg e) = Unknown
   \<and> (isRetryableError e \<longleftrightarrow>
        (exn_name e = Some ''TypeError'' \<and> includes_str (exn_message e) ''fetch'')
        \<or> (\<exists>s. exn_status e = Some s \<and> (500 \<le> s \<and> s \<le> 599 \<or> s = 429)))
   \<and> (int k < maxRetries cfg \<and> isRetryableError e \<longrightarrow>
        attempt_loop cfg fetch k tr le
          = attempt_loop cfg fetch (k + 1)
              (tr\<lparr>attempts := attempts tr + 1,
                  sleeps := sleeps tr @ [retryDelay cfg * 2 ^ k]\<rparr>)
              (Some (networkError cfg e)))
   \<and> (\<not> (int k < maxRetries cfg \<and> isRetryableError e) \<longrightarrow>
        attempt_loop cfg fetch k tr le
          = (\<lparr>data = None, error = Some (networkError cfg e)\<rparr>,
             tr\<lparr>attempts := attempts tr + 1\<rparr>))"
proof (intro conjI impI)
  show "err_type (networkError cfg e) = Unknown"
    using assms(3,4) by (simp add: networkError_def)
  show "isRetryableError e \<longleftrightarrow>
        (exn_name e = Some ''TypeError'' \<and> includes_str (exn_message e) ''fetch'')
        \<or> (\<exists>s. exn_status e = Some s \<and> (500 \<le> s \<and> s \<le> 599 \<or> s = 429))"
    using assms(3) by (auto simp add: isRetryableError_def split: option.splits)
next
  assume "int k < maxRetries cfg \<and> isRetryableError e"
  then have "attempt_body cfg k (fetch k)
      = Continue (networkError cfg e) (retryDelay cfg * 2 ^ k)"
    by (simp add: attempt_body_def assms(2))
  with assms(1) show "attempt_loop cfg fetch k tr le
          = attempt_loop cfg fetch (k + 1)
              (tr\<lparr>attempts := attempts tr + 1,
                  sleeps := sleeps tr @ [retryDelay cfg * 2 ^ k]\<rparr>)
              (Some (networkError cfg e))"
    by (simp add: attempt_loop_step)
next
  assume "\<not> (int k < maxRetries cfg \<and> isRetryableError e)"
  then have "attempt_body cfg k (fetch k) = Break (networkError cfg e)"
    by (simp add: attempt_body_def assms(2))
  with assms(1) show "attempt_loop cfg fetch k tr le
          = (\<lparr>data = None, error = Some (networkError cfg e)\<rparr>,
             tr\<lparr>attempts := attempts tr + 1\<rparr>)"
    by (simp add: attempt_loop_step)
qed

text \<open>
  The theorem at two exceptions under the default configuration: a plain \<open>Error\<close> is
  not retried, and an \<open>Error\<close> carrying status 502 is retried after 1000 ms.
\<close>

theorem unknown_exception_witness:
  "attempt_loop (merge_config Map.empty) (\<lambda>i. Rejected boom) 0 \<lparr>attempts = 0, sleeps = []\<rparr> None
     = (\<lparr>data = None, error = Some (networkError (merge_config Map.empty) boom)\<rparr>,
        \<lparr>attempts = 1, sleeps = []\<rparr>)
   \<and> err_type (networkError (merge_config Map.empty) boom) = Unknown
   \<and> attempt_loop (merge_config Map.empty) (\<lambda>i. Rejected gateway_failure) 0
       \<lparr>attempts = 0, sleeps = []\<rparr> None
     = attempt_loop (merge_config Map.empty) (\<lambda>i. Rejected gateway_failure) 1
         \<lparr>attempts = 1, sleeps = [1000]\<rparr>
         (Some (networkError (merge_config Map.empty) gateway_failure))"
proof -
  let ?cfg = "merge_config Map.empty"
  have m: "int 0 \<le> maxRetries ?cfg" by (simp add: merge_config_empty)
  have b: "exn_name boom \<noteq> Some ''AbortError''"
    "\<not> (exn_is_TypeError boom \<and> includes_str (exn_message boom) ''fetch'')"
    "\<not> isRetryableError boom"
    by (simp_all add: boom_def isRetryableError_def)
  have g: "exn_name gateway_failure \<noteq> Some ''AbortError''"
    "\<not> (exn_is_TypeError gateway_failure \<and> includes_str (exn_message gateway_failure) ''fetch'')"
    "isRetryableError gateway_failure"
    by (simp_all add: gateway_failure_def isRetryableError_def)
  from unknown_exception [of 0 ?cfg "\<lambda>i. Rejected boom" boom
      "\<lparr>attempts = 0, sleeps = []\<rparr>" None, OF m refl b(1,2)] b(3)
  have 1: "attempt_loop ?cfg (\<lambda>i. Rejected boom) 0 \<lparr>attempts = 0, sleeps = []\<rparr> None
     = (\<lparr>data = None, error = Some (networkError ?cfg boom)\<rparr>, \<lparr>attempts = 1, sleeps = []\<rparr>)"
    and 2: "err_type (networkError ?cfg boom) = Unknown"
    by simp_all
  from unknown_exception [of 0 ?cfg "\<lambda>i. Rejected gateway_failure" gateway_failure
      "\<lparr>attempts = 0, sleeps = []\<rparr>" None, OF m refl g(1,2)] g(3)
  have 3: "attempt_loop ?cfg (\<lambda>i. Rejected gateway_failure) 0 \<lparr>attempts = 0, sleeps = []\<rparr> None
     = attempt_loop ?cfg (\<lambda>i. Rejected gateway_failure) 1
         \<lparr>attempts = 1, sleeps = [1000]\<rparr> (Some (networkError ?cfg gateway_failure))"
    by (simp add: merge_config_empty)
  from 1 2 3 show ?thesis by simp
qed

text \<open>
  Against C1 as stated: under the default configuration (three retries) a fetch that
  raises a plain \<open>Error\<close>, neither a timeout nor a network failure, ends the call after
  one attempt and no sleep, although attempts remain.
\<close>

theorem unknown_exception_counterexample:
  "exn_name boom \<noteq> Some ''AbortError''
   \<and> \<not> (exn_is_TypeError boom \<and> includes_str (exn_message boom) ''fetch'')
   \<and> (0 :: int) < maxRetries (merge_config Map.empty)
   \<and> makeOpenFDARequest (\<lambda>u i. Rejected boom) ''u'' Map.empty
     = (\<lparr>data = None,
         error = Some \<lparr>err_type = Unknown, err_message = ''Unexpected error: boom'',
                       err_status = None, err_details = Some (Exn boom)\<rparr>\<rparr>,
        \<lparr>attempts = 1, sleeps = []\<rparr>)"
proof -
  have "attempt_body (merge_config Map.empty) 0 (Rejected boom)
      = Break \<lparr>err_type = Unknown, err_message = ''Unexpected error: boom'',
               err_status = None, err_details = Some (Exn boom)\<rparr>"
    by (simp add: attempt_body_def isRetryableError_def networkError_def) (simp add: boom_def)
  then show ?thesis
    by (simp add: makeOpenFDARequest_def attempt_loop_step merge_config_empty)
      (simp add: boom_def)
qed

end
